theory Spec2Isabelle
  imports Complex_Main
begin

section \<open>JavaScript numbers and strings\<close>

text \<open>
  The DXF viewer (\<^verbatim>\<open>dxfViewerService.js\<close>, \<^verbatim>\<open>DxfViewer.jsx\<close>) computes with
  JavaScript numbers. They are modelled as exact reals extended by the three special
  values of the language: \<open>NaN\<close>, \<open>-Infinity\<close> and \<open>Infinity\<close>. Rounding to the
  nearest double and the sign of zero are not modelled: \<open>Fin 0\<close> stands for both zeros,
  and a zero divisor is read as \<open>+0\<close>, which is what a difference \<open>a - a\<close> yields.
\<close>

datatype jsnum = NaN | NegInf | Fin real | PosInf

text \<open>The order of the non-NaN values, as \<^verbatim>\<open>Math.min\<close> and \<^verbatim>\<open>Math.max\<close> use it.\<close>

fun js_le :: "jsnum \<Rightarrow> jsnum \<Rightarrow> bool" where
  "js_le NegInf _ = True"
| "js_le _ PosInf = True"
| "js_le (Fin a) (Fin b) = (a \<le> b)"
| "js_le _ _ = False"

text \<open>\<^verbatim>\<open>Math.min(a, b)\<close> and \<^verbatim>\<open>Math.max(a, b)\<close>: NaN if either argument is NaN.\<close>

definition js_min :: "jsnum \<Rightarrow> jsnum \<Rightarrow> jsnum" where
  "js_min a b = (if a = NaN \<or> b = NaN then NaN else if js_le a b then a else b)"

definition js_max :: "jsnum \<Rightarrow> jsnum \<Rightarrow> jsnum" where
  "js_max a b = (if a = NaN \<or> b = NaN then NaN else if js_le a b then b else a)"

text \<open>Unary minus.\<close>

fun js_neg :: "jsnum \<Rightarrow> jsnum" where
  "js_neg NaN = NaN"
| "js_neg NegInf = PosInf"
| "js_neg PosInf = NegInf"
| "js_neg (Fin a) = Fin (- a)"

text \<open>\<^verbatim>\<open>a + b\<close>: the sum of opposite infinities is NaN.\<close>

fun js_add :: "jsnum \<Rightarrow> jsnum \<Rightarrow> jsnum" where
  "js_add NaN _ = NaN"
| "js_add _ NaN = NaN"
| "js_add (Fin a) (Fin b) = Fin (a + b)"
| "js_add PosInf NegInf = NaN"
| "js_add NegInf PosInf = NaN"
| "js_add PosInf _ = PosInf"
| "js_add _ PosInf = PosInf"
| "js_add NegInf _ = NegInf"
| "js_add _ NegInf = NegInf"

definition js_sub :: "jsnum \<Rightarrow> jsnum \<Rightarrow> jsnum" where
  "js_sub a b = js_add a (js_neg b)"

text \<open>The sign of a non-NaN value: \<open>-1\<close>, \<open>0\<close> or \<open>1\<close>.\<close>

fun js_sign :: "jsnum \<Rightarrow> int" where
  "js_sign NegInf = - 1"
| "js_sign PosInf = 1"
| "js_sign (Fin a) = (if a < 0 then - 1 else if a = 0 then 0 else 1)"
| "js_sign NaN = 0"

text \<open>\<^verbatim>\<open>a * b\<close>: infinity times zero is NaN.\<close>

fun js_mul :: "jsnum \<Rightarrow> jsnum \<Rightarrow> jsnum" where
  "js_mul NaN _ = NaN"
| "js_mul _ NaN = NaN"
| "js_mul (Fin a) (Fin b) = Fin (a * b)"
| "js_mul a b =
     (if js_sign a * js_sign b = 0 then NaN
      else if js_sign a * js_sign b < 0 then NegInf else PosInf)"

text \<open>
  \<^verbatim>\<open>a / b\<close>: a finite nonzero value over zero is an infinity, zero over zero and
  infinity over infinity are NaN, a finite value over an infinity is zero.
\<close>

fun js_div :: "jsnum \<Rightarrow> jsnum \<Rightarrow> jsnum" where
  "js_div NaN _ = NaN"
| "js_div _ NaN = NaN"
| "js_div (Fin a) (Fin b) =
     (if b \<noteq> 0 then Fin (a / b)
      else if a = 0 then NaN else if a < 0 then NegInf else PosInf)"
| "js_div (Fin a) _ = Fin 0"
| "js_div a (Fin b) =
     (if (b < 0) = (a = PosInf) then NegInf else PosInf)"
| "js_div _ _ = NaN"

text \<open>
  The decoded text is a HOL string: its characters are the code units
  \<open>U+0000\<close> to \<open>U+00FF\<close>. The white space of \<^verbatim>\<open>String.prototype.trim\<close> and of
  the numeric parsers in that range is TAB, LF, VT, FF, CR, SPACE and NBSP.
\<close>

definition is_ws :: "char \<Rightarrow> bool" where
  "is_ws c = (c = CHR 0x09 \<or> c = CHR 0x0A \<or> c = CHR 0x0B \<or> c = CHR 0x0C
     \<or> c = CHR 0x0D \<or> c = CHR 0x20 \<or> c = CHR 0xA0)"

text \<open>\<^verbatim>\<open>s.trim()\<close>\<close>

definition trim :: "string \<Rightarrow> string" where
  "trim s = rev (dropWhile is_ws (rev (dropWhile is_ws s)))"

text \<open>\<^verbatim>\<open>text.split('\n')\<close>: the empty text gives one empty line.\<close>

fun split_nl :: "string \<Rightarrow> string list" where
  "split_nl [] = [[]]"
| "split_nl (c # cs) =
     (if c = CHR 0x0A then [] # split_nl cs
      else (case split_nl cs of [] \<Rightarrow> [[c]] | l # ls \<Rightarrow> (c # l) # ls))"

text \<open>The inverse of the split, to write a text line by line.\<close>

fun join_nl :: "string list \<Rightarrow> string" where
  "join_nl [] = []"
| "join_nl [l] = l"
| "join_nl (l # ls) = l @ CHR 0x0A # join_nl ls"

subsection \<open>The numeric parsers\<close>

definition is_digit :: "char \<Rightarrow> bool" where
  "is_digit c = (c \<in> set ''0123456789'')"

definition digit_val :: "char \<Rightarrow> nat" where
  "digit_val c = of_char c - 48"

definition digits_val :: "string \<Rightarrow> nat" where
  "digits_val ds = foldl (\<lambda>a c. 10 * a + digit_val c) 0 ds"

text \<open>An optional sign: whether it is a minus, and the rest.\<close>

fun take_sign :: "string \<Rightarrow> bool \<times> string" where
  "take_sign [] = (False, [])"
| "take_sign (c # cs) =
     (if c = CHR ''-'' then (True, cs)
      else if c = CHR ''+'' then (False, cs) else (False, c # cs))"

text \<open>
  The exponent part of a decimal literal, \<open>e\<close> or \<open>E\<close>, an optional sign and at
  least one digit; a part that is not complete is not read, and counts as \<open>0\<close>.
\<close>

definition exponent :: "string \<Rightarrow> int" where
  "exponent s =
     (case s of
        [] \<Rightarrow> 0
      | c # cs \<Rightarrow>
          if c = CHR ''e'' \<or> c = CHR ''E'' then
            (let (neg, r) = take_sign cs; ds = takeWhile is_digit r
             in if ds = [] then 0
                else if neg then - int (digits_val ds) else int (digits_val ds))
          else 0)"

definition pow10 :: "int \<Rightarrow> real" where
  "pow10 e = (if e < 0 then 1 / 10 ^ nat (- e) else 10 ^ nat e)"

text \<open>
  \<^verbatim>\<open>parseFloat(s)\<close>: leading white space is skipped, then the longest prefix that
  is a decimal literal is read (sign, \<open>Infinity\<close> or digits with an optional fraction
  and exponent); anything after it is ignored, and NaN is returned when there is no such
  prefix. The value is the real that the literal denotes: it is not rounded, and a
  literal beyond the range of the doubles is not turned into an infinity.
\<close>

definition parseFloat :: "string \<Rightarrow> jsnum" where
  "parseFloat s =
     (let (neg, t) = take_sign (dropWhile is_ws s) in
      if take 8 t = ''Infinity'' then (if neg then NegInf else PosInf)
      else
        let ip = takeWhile is_digit t;
            r1 = dropWhile is_digit t;
            fp = (case r1 of [] \<Rightarrow> []
                  | c # cs \<Rightarrow> if c = CHR ''.'' then takeWhile is_digit cs else []);
            r2 = (case r1 of [] \<Rightarrow> []
                  | c # cs \<Rightarrow> if c = CHR ''.'' then dropWhile is_digit cs else r1)
        in if ip = [] \<and> fp = [] then NaN
           else
             let m = real (digits_val (ip @ fp)) / 10 ^ length fp * pow10 (exponent r2)
             in Fin (if neg then - m else m))"

definition is_hex :: "char \<Rightarrow> bool" where
  "is_hex c = (c \<in> set ''0123456789abcdefABCDEF'')"

definition hex_val :: "char \<Rightarrow> nat" where
  "hex_val c =
     (if is_digit c then of_char c - 48
      else if c \<in> set ''abcdef'' then of_char c - 87 else of_char c - 55)"

text \<open>
  \<^verbatim>\<open>parseInt(s)\<close> with no radix: leading white space and a sign are skipped, a
  prefix \<open>0x\<close> or \<open>0X\<close> selects radix 16, otherwise the radix is 10; the digits
  of that radix are read, and NaN is returned when there is none.
\<close>

definition parseInt :: "string \<Rightarrow> jsnum" where
  "parseInt s =
     (let (neg, t) = take_sign (dropWhile is_ws s) in
      if take 2 t = ''0x'' \<or> take 2 t = ''0X'' then
        (let ds = takeWhile is_hex (drop 2 t)
         in if ds = [] then NaN
            else let n = real (foldl (\<lambda>a c. 16 * a + hex_val c) 0 ds)
                 in Fin (if neg then - n else n))
      else
        (let ds = takeWhile is_digit t
         in if ds = [] then NaN
            else let n = real (digits_val ds) in Fin (if neg then - n else n)))"

section \<open>The DXF entity extractor\<close>

text \<open>
  A vertex \<^verbatim>\<open>{ x, y }\<close> (fields \<open>vx\<close>, \<open>vy\<close>) and an entity
  \<^verbatim>\<open>{ type, data: { layer, vertexCount }, vertices }\<close> (fields \<open>etype\<close>,
  \<open>data_layer\<close>, \<open>data_vertexCount\<close>, \<open>evertices\<close>). The two fields of
  \<^verbatim>\<open>data\<close> are absent until a group code 8 or 90 sets them.
\<close>

record vertex =
  vx :: jsnum
  vy :: jsnum

record entity =
  etype :: string
  data_layer :: "string option"
  data_vertexCount :: "jsnum option"
  evertices :: "vertex list"

text \<open>The local variables of \<^verbatim>\<open>parseDxfContent\<close>; \<^verbatim>\<open>null\<close> is \<open>None\<close>.\<close>

record scan_state =
  entities :: "entity list"
  currentEntity :: "entity option"
  inEntity :: bool
  inEntitiesSection :: bool
  currentLayer :: "string option"
  vertexCount :: jsnum
  vertices :: "vertex list"
  expectingY :: bool
  lastX :: "jsnum option"

definition init_state :: scan_state where
  "init_state =
     \<lparr>entities = [], currentEntity = None, inEntity = False, inEntitiesSection = False,
      currentLayer = None, vertexCount = Fin 0, vertices = [], expectingY = False,
      lastX = None\<rparr>"

text \<open>
  The allow-list test of both emission sites:
  \<^verbatim>\<open>currentLayer === '0' || currentLayer === 'work_area' || currentLayer === 'details'\<close>.
\<close>

definition allowed_layer :: "string option \<Rightarrow> bool" where
  "allowed_layer l = (l = Some ''0'' \<or> l = Some ''work_area'' \<or> l = Some ''details'')"

text \<open>
  \<^verbatim>\<open>if (currentEntity && allowed) { currentEntity.vertices = vertices;
  entities.push(currentEntity) }\<close>
\<close>

definition emit :: "scan_state \<Rightarrow> entity list" where
  "emit s =
     (case currentEntity s of
        None \<Rightarrow> entities s
      | Some e \<Rightarrow>
          if allowed_layer (currentLayer s)
          then entities s @ [e\<lparr>evertices := vertices s\<rparr>]
          else entities s)"

text \<open>
  The start of an entity: when the line is \<open>0\<close>, a next line exists and it is
  \<open>LWPOLYLINE\<close>, the previous entity is emitted and a new one begins.
\<close>

definition start_entity :: "scan_state \<Rightarrow> string \<Rightarrow> string list \<Rightarrow> scan_state" where
  "start_entity s line rest =
     (case rest of
        [] \<Rightarrow> s
      | nxt # _ \<Rightarrow>
          if line = ''0'' \<and> trim nxt = ''LWPOLYLINE'' then
            s\<lparr>entities := emit s,
              currentEntity :=
                Some \<lparr>etype = trim nxt, data_layer = None, data_vertexCount = None,
                      evertices = []\<rparr>,
              currentLayer := None, vertexCount := Fin 0, vertices := [],
              expectingY := False, lastX := None, inEntity := True\<rparr>
          else s)"

text \<open>
  The group codes read inside an entity; \<open>pF\<close> and \<open>pI\<close> are the two numeric
  parsers, \<^verbatim>\<open>parseFloat\<close> and \<^verbatim>\<open>parseInt\<close>.
\<close>

definition read_code ::
  "(string \<Rightarrow> jsnum) \<Rightarrow> (string \<Rightarrow> jsnum) \<Rightarrow> scan_state \<Rightarrow> string \<Rightarrow> string list \<Rightarrow> scan_state"
where
  "read_code pF pI s line rest =
     (case (inEntity s, currentEntity s, rest) of
        (True, Some e, nxt # _) \<Rightarrow>
          if line = ''8'' then
            s\<lparr>currentLayer := Some (trim nxt),
              currentEntity := Some (e\<lparr>data_layer := Some (trim nxt)\<rparr>)\<rparr>
          else if line = ''90'' then
            s\<lparr>vertexCount := pI nxt,
              currentEntity := Some (e\<lparr>data_vertexCount := Some (pI nxt)\<rparr>)\<rparr>
          else if line = ''10'' then
            s\<lparr>lastX := Some (pF nxt), expectingY := True\<rparr>
          else if line = ''20'' \<and> expectingY s then
            (case lastX s of
               None \<Rightarrow> s
             | Some x \<Rightarrow>
                 s\<lparr>vertices := vertices s @ [\<lparr>vx = x, vy = pF nxt\<rparr>],
                   expectingY := False, lastX := None\<rparr>)
          else s
      | _ \<Rightarrow> s)"

text \<open>
  One iteration of the loop over the lines: \<open>raw\<close> is \<^verbatim>\<open>lines[i]\<close> and
  \<open>rest\<close> the lines after it, so that \<^verbatim>\<open>i + 1 < lines.length\<close> is
  \<open>rest \<noteq> []\<close> and \<^verbatim>\<open>lines[i + 1]\<close> its head.
\<close>

definition step ::
  "(string \<Rightarrow> jsnum) \<Rightarrow> (string \<Rightarrow> jsnum) \<Rightarrow> scan_state \<Rightarrow> string \<Rightarrow> string list \<Rightarrow> scan_state"
where
  "step pF pI s raw rest =
     (let line = trim raw in
      if line = ''2'' \<and> rest \<noteq> [] \<and> trim (hd rest) = ''ENTITIES''
      then s\<lparr>inEntitiesSection := True\<rparr>
      else if \<not> inEntitiesSection s then s
      else read_code pF pI (start_entity s line rest) line rest)"

fun scan ::
  "(string \<Rightarrow> jsnum) \<Rightarrow> (string \<Rightarrow> jsnum) \<Rightarrow> scan_state \<Rightarrow> string list \<Rightarrow> scan_state"
where
  "scan pF pI s [] = s"
| "scan pF pI s (raw # rest) = scan pF pI (step pF pI s raw rest) rest"

text \<open>
  The whole extraction on the decoded text, with the numeric parsers as parameters:
  the loop, then the emission of the last entity.
\<close>

definition extract_entities :: "(string \<Rightarrow> jsnum) \<Rightarrow> (string \<Rightarrow> jsnum) \<Rightarrow> string \<Rightarrow> entity list" where
  "extract_entities pF pI content = emit (scan pF pI init_state (split_nl content))"

text \<open>
  \<^verbatim>\<open>parseDxfContent\<close> on the text that \<^verbatim>\<open>TextDecoder\<close> returns. The decoder
  is not fatal and the loop raises nothing on a text, so the \<^verbatim>\<open>catch\<close> branch
  (which returns the empty list) is not reached from here.
\<close>

definition parseDxfContent :: "string \<Rightarrow> entity list" where
  "parseDxfContent content = extract_entities parseFloat parseInt content"

section \<open>The SVG projector\<close>

text \<open>
  The markup that \<^verbatim>\<open>convertDxfToSvg\<close> returns is built from template literals.
  It is modelled as the sequence of their pieces: the literal parts as they are written
  in the source, and every interpolated number as the number itself, so that the model
  does not depend on how a number is printed. The string is the concatenation of the
  pieces.
\<close>

datatype piece = Lit string | Num jsnum

record bbox =
  minX :: jsnum
  minY :: jsnum
  maxX :: jsnum
  maxY :: jsnum

text \<open>The body of the inner \<^verbatim>\<open>forEach\<close>: one vertex widens the box.\<close>

definition grow :: "bbox \<Rightarrow> vertex \<Rightarrow> bbox" where
  "grow b v =
     \<lparr>minX = js_min (minX b) (vx v), minY = js_min (minY b) (vy v),
      maxX = js_max (maxX b) (vx v), maxY = js_max (maxY b) (vy v)\<rparr>"

text \<open>The bounds over all vertices of all entities, from the empty box.\<close>

definition bounds :: "entity list \<Rightarrow> bbox" where
  "bounds es =
     foldl (\<lambda>b e. foldl grow b (evertices e))
       \<lparr>minX = PosInf, minY = PosInf, maxX = NegInf, maxY = NegInf\<rparr> es"

definition bbox_dx :: "bbox \<Rightarrow> jsnum" where
  "bbox_dx b = js_sub (maxX b) (minX b)"

definition bbox_dy :: "bbox \<Rightarrow> jsnum" where
  "bbox_dy b = js_sub (maxY b) (minY b)"

text \<open>\<^verbatim>\<open>const scale = Math.min(width / dx, height / dy) * 0.8\<close>\<close>

definition svg_scale :: "entity list \<Rightarrow> jsnum \<Rightarrow> jsnum \<Rightarrow> jsnum" where
  "svg_scale es width height =
     js_mul (js_min (js_div width (bbox_dx (bounds es))) (js_div height (bbox_dy (bounds es))))
       (Fin 0.8)"

definition centerX :: "entity list \<Rightarrow> jsnum" where
  "centerX es = js_div (js_add (minX (bounds es)) (maxX (bounds es))) (Fin 2)"

definition centerY :: "entity list \<Rightarrow> jsnum" where
  "centerY es = js_div (js_add (minY (bounds es)) (maxY (bounds es))) (Fin 2)"

text \<open>Stroke colour and width by layer.\<close>

definition stroke_of :: "string option \<Rightarrow> string \<times> string" where
  "stroke_of l =
     (if l = Some ''0'' \<or> l = Some ''work_area'' then (''#2E86AB'', ''2'')
      else if l = Some ''details'' then (''#A23B72'', ''1.5'')
      else (''black'', ''1''))"

text \<open>
  \<^verbatim>\<open>pathData\<close>: move to the first vertex, a line to each later one. The source
  reads \<^verbatim>\<open>vertices[0]\<close> only under the guard \<^verbatim>\<open>vertices.length > 0\<close>.
\<close>

fun path_data :: "vertex list \<Rightarrow> piece list" where
  "path_data [] = []"
| "path_data (v # vs) =
     [Lit ''M '', Num (vx v), Lit '' '', Num (vy v)]
     @ concat (map (\<lambda>u. [Lit '' L '', Num (vx u), Lit '' '', Num (vy u)]) vs)"

text \<open>The opening of a path element, by which the elements are counted.\<close>

definition path_open :: piece where
  \<open>path_open = Lit ''<path d="''\<close>

text \<open>The body of the second \<^verbatim>\<open>forEach\<close>: what one entity adds to the markup.\<close>

definition entity_path :: "entity \<Rightarrow> piece list" where
  \<open>entity_path e =
     (if etype e = ''LWPOLYLINE'' \<and> length (evertices e) > 0 then
        [path_open] @ path_data (evertices e)
        @ [Lit ''" fill="none" stroke="'', Lit (fst (stroke_of (data_layer e))),
           Lit ''" stroke-width="'', Lit (snd (stroke_of (data_layer e))), Lit ''"/>'']
      else [])\<close>

text \<open>The opening of the group that carries the transform.\<close>

definition group_open :: piece where
  \<open>group_open = Lit ''<g transform="translate(''\<close>

text \<open>The \<^verbatim>\<open>svg\<close> start tag and the group with its transform.\<close>

definition svg_head :: "jsnum \<Rightarrow> jsnum \<Rightarrow> piece list" where
  \<open>svg_head width height =
     [Lit ''<svg width="'', Num width, Lit ''" height="'', Num height,
      Lit ''" xmlns="http://www.w3.org/2000/svg" viewBox="0 0 '', Num width, Lit '' '',
      Num height, Lit ''">'']\<close>

definition svg_group :: "jsnum \<Rightarrow> jsnum \<Rightarrow> jsnum \<Rightarrow> jsnum \<Rightarrow> jsnum \<Rightarrow> piece list" where
  \<open>svg_group tx ty sc cx cy =
     [group_open, Num tx, Lit '', '', Num ty, Lit '') scale('', Num sc,
      Lit '') translate('', Num cx, Lit '', '', Num cy, Lit '')">'']\<close>

text \<open>
  \<^verbatim>\<open>convertDxfToSvg(entities, width, height)\<close>. On a list of entities nothing in
  the body raises, so the \<^verbatim>\<open>catch\<close> branch is not reached.
\<close>

definition convertDxfToSvg :: "entity list \<Rightarrow> jsnum \<Rightarrow> jsnum \<Rightarrow> piece list" where
  "convertDxfToSvg es width height =
     svg_head width height
     @ svg_group (js_div width (Fin 2)) (js_div height (Fin 2)) (svg_scale es width height)
         (js_neg (centerX es)) (js_neg (centerY es))
     @ concat (map entity_path es)
     @ [Lit ''</g></svg>'']"

text \<open>The number of path elements of a markup.\<close>

definition path_count :: "piece list \<Rightarrow> nat" where
  "path_count ps = length (filter (\<lambda>p. p = path_open) ps)"

section \<open>The zoom of the viewer\<close>

text \<open>
  The handlers of \<^verbatim>\<open>DxfViewer.jsx\<close> as functions of the previous zoom, which starts
  at \<open>1\<close> and stays finite, so it is a real.
\<close>

definition handleZoomIn :: "real \<Rightarrow> real" where
  "handleZoomIn prev = min (prev * 1.2) 5"

definition handleZoomOut :: "real \<Rightarrow> real" where
  "handleZoomOut prev = max (prev / 1.2) 0.1"

definition handleWheel :: "real \<Rightarrow> real \<Rightarrow> real" where
  "handleWheel deltaY prev =
     (let delta = (if deltaY > 0 then 0.9 else 1.1) in max 0.1 (min 5 (prev * delta)))"

definition handleResetZoom :: "real \<Rightarrow> real" where
  "handleResetZoom prev = 1"

datatype zoom_action = ZoomIn | ZoomOut | Wheel real | ResetZoom

fun zoom_step :: "real \<Rightarrow> zoom_action \<Rightarrow> real" where
  "zoom_step z ZoomIn = handleZoomIn z"
| "zoom_step z ZoomOut = handleZoomOut z"
| "zoom_step z (Wheel d) = handleWheel d z"
| "zoom_step z ResetZoom = handleResetZoom z"

text \<open>The zoom after a sequence of actions, from the initial \<^verbatim>\<open>useState(1)\<close>.\<close>

definition zoom_after :: "zoom_action list \<Rightarrow> real" where
  "zoom_after acts = foldl zoom_step 1 acts"

section \<open>Notions used in the statements\<close>

text \<open>The zoom range: \<^verbatim>\<open>Math.max(0.1, Math.min(5, z))\<close>.\<close>

definition clamp_zoom :: "real \<Rightarrow> real" where
  "clamp_zoom z = max 0.1 (min 5 z)"






text \<open>A vertex with finite coordinates.\<close>

definition fin_vertex :: "real \<times> real \<Rightarrow> vertex" where
  "fin_vertex p = \<lparr>vx = Fin (fst p), vy = Fin (snd p)\<rparr>"

text \<open>The guard of the drawing loop: \<^verbatim>\<open>entity.type === 'LWPOLYLINE' && entity.vertices.length > 0\<close>.\<close>

definition drawable :: "entity \<Rightarrow> bool" where
  "drawable e = (etype e = ''LWPOLYLINE'' \<and> evertices e \<noteq> [])"

text \<open>The number of groups with a transform in a markup.\<close>

definition group_count :: "piece list \<Rightarrow> nat" where
  "group_count ps = length (filter (\<lambda>p. p = group_open) ps)"

subsection \<open>Sample inputs\<close>

text \<open>
  A drawing with one LWPOLYLINE on layer \<open>0\<close>, an octagon: eight vertices, declared
  by group code 90 with the value \<open>8\<close>, then the flags (group code 70).
\<close>

definition octagon_dxf :: string where
  "octagon_dxf = join_nl
     [''  0'', ''SECTION'', ''  2'', ''ENTITIES'',
      ''  0'', ''LWPOLYLINE'', ''  8'', ''0'', '' 90'', ''8'', '' 70'', ''1'',
      '' 10'', ''30.0'', '' 20'', ''0.0'', '' 10'', ''70.0'', '' 20'', ''0.0'',
      '' 10'', ''100.0'', '' 20'', ''30.0'', '' 10'', ''100.0'', '' 20'', ''70.0'',
      '' 10'', ''70.0'', '' 20'', ''100.0'', '' 10'', ''30.0'', '' 20'', ''100.0'',
      '' 10'', ''0.0'', '' 20'', ''70.0'', '' 10'', ''0.0'', '' 20'', ''30.0'',
      ''  0'', ''ENDSEC'', ''  0'', ''EOF'']"



text \<open>An empty ENTITIES section, and an LWPOLYLINE in the section after it.\<close>

definition late_polyline :: string where
  "late_polyline = join_nl
     [''  0'', ''SECTION'', ''  2'', ''ENTITIES'', ''  0'', ''ENDSEC'',
      ''  0'', ''SECTION'', ''  2'', ''OBJECTS'',
      ''  0'', ''LWPOLYLINE'', ''  8'', ''0'', '' 90'', ''2'',
      '' 10'', ''0.0'', '' 20'', ''0.0'', '' 10'', ''1.0'', '' 20'', ''1.0'',
      ''  0'', ''ENDSEC'', ''  0'', ''EOF'']"

text \<open>
  An LWPOLYLINE with the pairs 8 \<open>details\<close>, 90 \<open>10\<close> and 20 \<open>7.0\<close>: a Y
  coordinate and no group code 10 before it.
\<close>

definition stray_y_dxf :: string where
  "stray_y_dxf = join_nl
     [''  0'', ''SECTION'', ''  2'', ''ENTITIES'',
      ''  0'', ''LWPOLYLINE'', ''  8'', ''details'', '' 90'', ''10'',
      '' 20'', ''7.0'',
      ''  0'', ''ENDSEC'', ''  0'', ''EOF'']"

text \<open>An LWPOLYLINE with the one vertex \<open>(20, 5)\<close>, its coordinates written as integers.\<close>

definition x_twenty_dxf :: string where
  "x_twenty_dxf = join_nl
     [''  0'', ''SECTION'', ''  2'', ''ENTITIES'',
      ''  0'', ''LWPOLYLINE'', ''  8'', ''details'', '' 90'', ''1'',
      '' 10'', ''20'', '' 20'', ''5'',
      ''  0'', ''ENDSEC'', ''  0'', ''EOF'']"

text \<open>A scanner state inside an entity, with the X coordinate \<open>3\<close> pending.\<close>

definition pending_state :: scan_state where
  "pending_state =
     \<lparr>entities = [],
      currentEntity =
        Some \<lparr>etype = ''LWPOLYLINE'', data_layer = None, data_vertexCount = None,
              evertices = []\<rparr>,
      inEntity = True, inEntitiesSection = True, currentLayer = None,
      vertexCount = Fin 0, vertices = [], expectingY = True, lastX = Some (Fin 3)\<rparr>"

text \<open>The sheet and a detail of a cutting map, a single point, and an entity without vertices.\<close>

definition sheet :: entity where
  "sheet =
     \<lparr>etype = ''LWPOLYLINE'', data_layer = Some ''0'', data_vertexCount = Some (Fin 4),
      evertices =
        [fin_vertex (0, 0), fin_vertex (100, 0), fin_vertex (100, 50), fin_vertex (0, 50)]\<rparr>"

definition detail :: entity where
  "detail =
     \<lparr>etype = ''LWPOLYLINE'', data_layer = Some ''details'', data_vertexCount = Some (Fin 3),
      evertices = [fin_vertex (10, 10), fin_vertex (40, 10), fin_vertex (40, 30)]\<rparr>"

definition single_point :: entity where
  "single_point =
     \<lparr>etype = ''LWPOLYLINE'', data_layer = Some ''details'', data_vertexCount = Some (Fin 1),
      evertices = [fin_vertex (3, 4)]\<rparr>"

definition no_vertices :: entity where
  "no_vertices =
     \<lparr>etype = ''LWPOLYLINE'', data_layer = Some ''0'', data_vertexCount = None,
      evertices = []\<rparr>"

section \<open>Properties of the extractor\<close>

text \<open>The equations that evaluate the extractor on a given text.\<close>

lemmas parse_eval =
  parseDxfContent_def extract_entities_def init_state_def emit_def allowed_layer_def
  step_def read_code_def start_entity_def trim_def is_ws_def Let_def
  parseFloat_def parseInt_def is_digit_def digits_val_def digit_val_def exponent_def
  pow10_def is_hex_def hex_val_def

subsection \<open>Single steps\<close>

lemma step_non_code:
  "trim raw \<notin> {''0'', ''2'', ''8'', ''90'', ''10'', ''20''} \<Longrightarrow> step pF pI s raw rest = s"
  by (auto simp add: step_def read_code_def start_entity_def Let_def
      split: list.splits option.splits bool.splits)

lemma step_other_marker:
  "trim raw = ''0'' \<Longrightarrow> trim nxt \<noteq> ''LWPOLYLINE'' \<Longrightarrow> step pF pI s raw (nxt # r) = s"
  by (simp add: step_def read_code_def start_entity_def Let_def
      split: list.splits option.splits bool.splits)

lemma scan_skips_marker:
  assumes "trim raw = ''0''"
    and "trim nxt \<notin> {''LWPOLYLINE'', ''0'', ''2'', ''8'', ''90'', ''10'', ''20''}"
  shows "scan pF pI s (raw # nxt # r) = scan pF pI s r"
proof -
  have a: "step pF pI s raw (nxt # r) = s"
    using assms by (intro step_other_marker) simp_all
  have b: "step pF pI s nxt r = s"
    using assms(2) by (intro step_non_code) simp
  show ?thesis by (simp add: a b)
qed




subsection \<open>What the scan never undoes\<close>

lemma step_flag_kept: "inEntitiesSection s \<Longrightarrow> inEntitiesSection (step pF pI s raw rest)"
  by (simp add: step_def read_code_def start_entity_def Let_def
      split: list.splits option.splits bool.splits)

lemma scan_flag_kept: "inEntitiesSection s \<Longrightarrow> inEntitiesSection (scan pF pI s ls)"
  by (induction ls arbitrary: s) (simp_all add: step_flag_kept)

lemma step_marker_sets_flag:
  "trim raw = ''2'' \<Longrightarrow> trim nxt = ''ENTITIES'' \<Longrightarrow>
   inEntitiesSection (step pF pI s raw (nxt # r))"
  by (simp add: step_def)



subsection \<open>The numbers do not decide what is extracted\<close>







subsection \<open>When the numeric parsers return NaN\<close>




subsection \<open>The extractor on the sample inputs\<close>



lemma late_polyline_parse:
  "parseDxfContent late_polyline =
     [\<lparr>etype = ''LWPOLYLINE'', data_layer = Some ''0'', data_vertexCount = Some (Fin 2),
       evertices = [fin_vertex (0, 0), fin_vertex (1, 1)]\<rparr>]"
  unfolding late_polyline_def by (simp add: parse_eval fin_vertex_def)

subsection \<open>Main results on the extractor\<close>

text \<open>
  C1. A drawing whose LWPOLYLINE entities are all on allowed layers should come back
  whole, entity by entity and vertex by vertex. The scanner reads every line as a
  possible group code, the value lines too. In the octagon on layer \<open>0\<close> the value
  \<open>8\<close> of the vertex count is read as the layer code, the layer becomes the text of
  the line after it (\<open>70\<close>), and the entity is dropped: the result is empty where one
  entity with eight vertices is expected.
\<close>

theorem octagon_is_dropped: "parseDxfContent octagon_dxf = []"
  unfolding octagon_dxf_def by (simp add: parse_eval)




text \<open>
  C4. A line 20 should add a vertex only when an X from a group code 10 is pending, with
  that X and the value of the line after the 20 as Y. The scanner reads value lines as
  group codes too. In the first sample the text has no group code 10: the value \<open>10\<close>
  of the vertex count is read as one, the X becomes the number on the line after it (the
  code \<open>20\<close> itself), and the line 20 then adds the vertex \<open>(20, 7)\<close> where none
  is expected. In the second sample the X value \<open>20\<close> is read as the code 20: the
  vertex becomes \<open>(20, 20)\<close> and the Y value \<open>5\<close> is never read.
\<close>

theorem stray_y_makes_vertex:
  "parseDxfContent stray_y_dxf =
     [\<lparr>etype = ''LWPOLYLINE'', data_layer = Some ''details'', data_vertexCount = Some (Fin 10),
       evertices = [\<lparr>vx = Fin 20, vy = Fin 7\<rparr>]\<rparr>]
   \<and> parseDxfContent x_twenty_dxf =
     [\<lparr>etype = ''LWPOLYLINE'', data_layer = Some ''details'', data_vertexCount = Some (Fin 1),
       evertices = [\<lparr>vx = Fin 20, vy = Fin 20\<rparr>]\<rparr>]"
  unfolding stray_y_dxf_def x_twenty_dxf_def by (simp add: parse_eval)



text \<open>
  C10. The ENTITIES flag is set by a line \<open>2\<close> followed by \<open>ENTITIES\<close>, in any
  state, and nothing clears it: it holds to the end of the scan. The end of the section
  (a line \<open>0\<close> followed by \<open>ENDSEC\<close>) is passed over with no change of state. In
  the sample, the LWPOLYLINE of the section after the empty ENTITIES section is
  extracted.
\<close>

theorem section_flag_never_cleared:
  "(inEntitiesSection s \<longrightarrow> inEntitiesSection (scan pF pI s ls))
   \<and> (trim raw = ''2'' \<and> trim nxt = ''ENTITIES'' \<longrightarrow>
        inEntitiesSection (step pF pI s raw (nxt # r)))
   \<and> (trim raw = ''0'' \<and> trim nxt = ''ENDSEC'' \<longrightarrow>
        scan pF pI s (raw # nxt # r) = scan pF pI s r)
   \<and> parseDxfContent late_polyline =
       [\<lparr>etype = ''LWPOLYLINE'', data_layer = Some ''0'', data_vertexCount = Some (Fin 2),
         evertices = [fin_vertex (0, 0), fin_vertex (1, 1)]\<rparr>]"
proof -
  have e: "trim raw = ''0'' \<and> trim nxt = ''ENDSEC'' \<longrightarrow>
        scan pF pI s (raw # nxt # r) = scan pF pI s r"
  proof
    assume h: "trim raw = ''0'' \<and> trim nxt = ''ENDSEC''"
    then have "trim nxt \<notin> {''LWPOLYLINE'', ''0'', ''2'', ''8'', ''90'', ''10'', ''20''}"
      by simp
    with h show "scan pF pI s (raw # nxt # r) = scan pF pI s r"
      by (intro scan_skips_marker) simp_all
  qed
  show ?thesis
    using scan_flag_kept [of s pF pI ls] step_marker_sets_flag [of raw nxt pF pI s r] e
      late_polyline_parse
    by blast
qed

theorem section_flag_never_cleared_witness:
  "trim ''  2'' = ''2'' \<and> trim ''ENTITIES'' = ''ENTITIES''
   \<and> inEntitiesSection (step parseFloat parseInt init_state ''  2'' [''ENTITIES''])
   \<and> inEntitiesSection pending_state
   \<and> inEntitiesSection (scan parseFloat parseInt pending_state [''  0'', ''ENDSEC'', ''  0'', ''EOF''])
   \<and> scan parseFloat parseInt pending_state [''  0'', ''ENDSEC'', '' 20'', ''6.0''] =
       scan parseFloat parseInt pending_state ['' 20'', ''6.0'']"
proof -
  have t2: "trim ''  2'' = ''2''" by (simp add: trim_def is_ws_def)
  have te: "trim ''ENTITIES'' = ''ENTITIES''" by (simp add: trim_def is_ws_def)
  have t0: "trim ''  0'' = ''0''" by (simp add: trim_def is_ws_def)
  have ts: "trim ''ENDSEC'' = ''ENDSEC''" by (simp add: trim_def is_ws_def)
  have h: "inEntitiesSection pending_state" by (simp add: pending_state_def)
  note a = section_flag_never_cleared
    [of init_state parseFloat parseInt "[]" "''  2''" "''ENTITIES''" "[]",
     THEN conjunct2, THEN conjunct1, rule_format, OF conjI, OF t2 te]
  note b = section_flag_never_cleared
    [of pending_state parseFloat parseInt "[''  0'', ''ENDSEC'', ''  0'', ''EOF'']",
     THEN conjunct1, rule_format, OF h]
  note c = section_flag_never_cleared
    [of pending_state parseFloat parseInt "[]" "''  0''" "''ENDSEC''" "['' 20'', ''6.0'']",
     THEN conjunct2, THEN conjunct2, THEN conjunct1, rule_format, OF conjI, OF t0 ts]
  from t2 te a h b c show ?thesis by (intro conjI)
qed

section \<open>Properties of the projector\<close>

subsection \<open>The bounds\<close>

lemma bounds_fold:
  "foldl (\<lambda>b e. foldl grow b (evertices e)) b es = foldl grow b (concat (map evertices es))"
  by (induction es arbitrary: b) simp_all

lemma grow_fin:
  "grow \<lparr>minX = Fin a, minY = Fin b, maxX = Fin c, maxY = Fin d\<rparr> (fin_vertex p) =
     \<lparr>minX = Fin (min (fst p) a), minY = Fin (min (snd p) b),
      maxX = Fin (max (fst p) c), maxY = Fin (max (snd p) d)\<rparr>"
  by (simp add: grow_def fin_vertex_def js_min_def js_max_def min_def max_def)

lemma foldl_grow_fin:
  "foldl grow \<lparr>minX = Fin a, minY = Fin b, maxX = Fin c, maxY = Fin d\<rparr> (map fin_vertex ps) =
     \<lparr>minX = Fin (fold min (map fst ps) a), minY = Fin (fold min (map snd ps) b),
      maxX = Fin (fold max (map fst ps) c), maxY = Fin (fold max (map snd ps) d)\<rparr>"
proof (induction ps arbitrary: a b c d)
  case Nil
  then show ?case by simp
next
  case (Cons p ps)
  show ?case by (simp only: list.map foldl_Cons grow_fin Cons.IH fold_simps)
qed

lemma grow_first:
  "grow \<lparr>minX = PosInf, minY = PosInf, maxX = NegInf, maxY = NegInf\<rparr> (fin_vertex p) =
     \<lparr>minX = Fin (fst p), minY = Fin (snd p), maxX = Fin (fst p), maxY = Fin (snd p)\<rparr>"
  by (simp add: grow_def fin_vertex_def js_min_def js_max_def)

text \<open>On finite vertices the fold computes the least and the greatest coordinates.\<close>

lemma bounds_fin:
  assumes "concat (map evertices es) = map fin_vertex ps" and "ps \<noteq> []"
  shows "bounds es =
     \<lparr>minX = Fin (Min (fst ` set ps)), minY = Fin (Min (snd ` set ps)),
      maxX = Fin (Max (fst ` set ps)), maxY = Fin (Max (snd ` set ps))\<rparr>"
proof -
  from assms(2) obtain p qs where ps: "ps = p # qs" by (cases ps) auto
  have "bounds es =
      foldl grow \<lparr>minX = PosInf, minY = PosInf, maxX = NegInf, maxY = NegInf\<rparr>
        (map fin_vertex ps)"
    by (simp only: bounds_def bounds_fold assms(1))
  also have "\<dots> =
      \<lparr>minX = Fin (fold min (map fst qs) (fst p)), minY = Fin (fold min (map snd qs) (snd p)),
       maxX = Fin (fold max (map fst qs) (fst p)), maxY = Fin (fold max (map snd qs) (snd p))\<rparr>"
    by (simp only: ps list.map foldl_Cons grow_first foldl_grow_fin)
  also have "\<dots> =
      \<lparr>minX = Fin (Min (set (map fst ps))), minY = Fin (Min (set (map snd ps))),
       maxX = Fin (Max (set (map fst ps))), maxY = Fin (Max (set (map snd ps)))\<rparr>"
    by (simp only: ps list.map Min.set_eq_fold Max.set_eq_fold)
  finally show ?thesis by simp
qed

lemma bounds_empty:
  assumes "\<forall>e \<in> set es. evertices e = []"
  shows "bounds es = \<lparr>minX = PosInf, minY = PosInf, maxX = NegInf, maxY = NegInf\<rparr>"
proof -
  have "concat (map evertices es) = []" using assms by simp
  then show ?thesis by (simp only: bounds_def bounds_fold foldl_Nil)
qed

subsection \<open>Counting path elements and groups\<close>

lemma path_count_append: "path_count (ps @ qs) = path_count ps + path_count qs"
  by (simp add: path_count_def)

lemma path_count_lines:
  "path_count (concat (map (\<lambda>u. [Lit '' L '', Num (vx u), Lit '' '', Num (vy u)]) vs)) = 0"
  by (induction vs) (simp_all add: path_count_def path_open_def)

lemma path_count_data: "path_count (path_data vs) = 0"
  using path_count_lines by (cases vs) (simp_all add: path_count_def path_open_def)

lemma entity_path_drawable:
  \<open>drawable e \<Longrightarrow>
   entity_path e =
     [path_open] @ path_data (evertices e)
     @ [Lit ''" fill="none" stroke="'', Lit (fst (stroke_of (data_layer e))),
        Lit ''" stroke-width="'', Lit (snd (stroke_of (data_layer e))), Lit ''"/>'']\<close>
  by (simp add: entity_path_def drawable_def)

lemma entity_path_other: "\<not> drawable e \<Longrightarrow> entity_path e = []"
  by (auto simp add: entity_path_def drawable_def)

lemma path_count_entity: "path_count (entity_path e) = (if drawable e then 1 else 0)"
proof -
  have s: \<open>path_count [Lit ''" fill="none" stroke="'', Lit (fst (stroke_of (data_layer e))),
           Lit ''" stroke-width="'', Lit (snd (stroke_of (data_layer e))), Lit ''"/>''] = 0\<close>
    by (simp add: path_count_def path_open_def stroke_of_def)
  have o: "path_count [path_open] = 1" by (simp add: path_count_def)
  show ?thesis
  proof (cases "drawable e")
    case True
    then show ?thesis
      by (simp only: entity_path_drawable path_count_append s o path_count_data) simp
  next
    case False
    then show ?thesis by (simp add: entity_path_other path_count_def)
  qed
qed

lemma path_count_entities:
  "path_count (concat (map entity_path es)) = length (filter drawable es)"
  by (induction es) (simp_all add: path_count_append path_count_entity, simp add: path_count_def)

lemma path_count_head: "path_count (svg_head w h) = 0"
  by (simp add: path_count_def svg_head_def path_open_def)

lemma path_count_group: "path_count (svg_group a b c d e) = 0"
  by (simp add: path_count_def svg_group_def path_open_def group_open_def)

lemma path_count_svg: "path_count (convertDxfToSvg es w h) = length (filter drawable es)"
  by (simp add: convertDxfToSvg_def path_count_append path_count_head path_count_group
      path_count_entities) (simp add: path_count_def path_open_def)

lemma group_count_append: "group_count (ps @ qs) = group_count ps + group_count qs"
  by (simp add: group_count_def)

lemma group_count_lines:
  "group_count (concat (map (\<lambda>u. [Lit '' L '', Num (vx u), Lit '' '', Num (vy u)]) vs)) = 0"
  by (induction vs) (simp_all add: group_count_def group_open_def)

lemma group_count_data: "group_count (path_data vs) = 0"
  using group_count_lines by (cases vs) (simp_all add: group_count_def group_open_def)

lemma group_count_entity: "group_count (entity_path e) = 0"
proof -
  have s: \<open>group_count [Lit ''" fill="none" stroke="'', Lit (fst (stroke_of (data_layer e))),
           Lit ''" stroke-width="'', Lit (snd (stroke_of (data_layer e))), Lit ''"/>''] = 0\<close>
    by (simp add: group_count_def group_open_def stroke_of_def)
  have o: "group_count [path_open] = 0"
    by (simp add: group_count_def group_open_def path_open_def)
  show ?thesis
  proof (cases "drawable e")
    case True
    then show ?thesis
      by (simp only: entity_path_drawable group_count_append s o group_count_data)
  next
    case False
    then show ?thesis by (simp add: entity_path_other group_count_def)
  qed
qed

lemma group_count_entities: "group_count (concat (map entity_path es)) = 0"
  by (induction es) (simp_all add: group_count_append group_count_entity, simp add: group_count_def)

lemma group_count_svg: "group_count (convertDxfToSvg es w h) = 1"
proof -
  have a: "group_count (svg_head w h) = 0"
    by (simp add: group_count_def svg_head_def group_open_def)
  have b: "group_count (svg_group t1 t2 sc c1 c2) = 1" for t1 t2 sc c1 c2
    by (simp add: group_count_def svg_group_def) (simp add: group_open_def)
  have c: "group_count [Lit ''</g></svg>''] = 0" by (simp add: group_count_def group_open_def)
  show ?thesis
    by (simp only: convertDxfToSvg_def group_count_append a b c group_count_entities)
qed

text \<open>After its twenty opening pieces the markup is the paths and the closing tags.\<close>

lemma svg_body:
  "drop 20 (convertDxfToSvg es w h) = concat (map entity_path es) @ [Lit ''</g></svg>'']"
  by (simp add: convertDxfToSvg_def svg_head_def svg_group_def)

subsection \<open>Main results on the projector\<close>

text \<open>
  C2. For entities whose vertices are finite and span a box of positive width \<open>dx\<close>
  and height \<open>dy\<close>, and a viewport \<open>w\<close> by \<open>h\<close>, the markup is the \<open>svg\<close> tag
  of size \<open>w\<close> by \<open>h\<close>, then one group whose transform translates to
  \<open>(w/2, h/2)\<close>, scales by \<open>min (w/dx) (h/dy) * 0.8\<close> and translates by minus the
  centre of the box, then the paths and the closing tags; there is exactly one group.
\<close>

theorem svg_transform:
  assumes \<open>concat (map evertices es) = map fin_vertex ps\<close> and \<open>ps \<noteq> []\<close>
    and \<open>Min (fst ` set ps) < Max (fst ` set ps)\<close> and \<open>Min (snd ` set ps) < Max (snd ` set ps)\<close>
  shows \<open>convertDxfToSvg es (Fin w) (Fin h) =
      [Lit ''<svg width="'', Num (Fin w), Lit ''" height="'', Num (Fin h),
       Lit ''" xmlns="http://www.w3.org/2000/svg" viewBox="0 0 '', Num (Fin w), Lit '' '',
       Num (Fin h), Lit ''">'',
       Lit ''<g transform="translate('', Num (Fin (w / 2)), Lit '', '', Num (Fin (h / 2)),
       Lit '') scale('',
       Num (Fin (min (w / (Max (fst ` set ps) - Min (fst ` set ps)))
                     (h / (Max (snd ` set ps) - Min (snd ` set ps))) * 0.8)),
       Lit '') translate('',
       Num (Fin (- ((Min (fst ` set ps) + Max (fst ` set ps)) / 2))), Lit '', '',
       Num (Fin (- ((Min (snd ` set ps) + Max (snd ` set ps)) / 2))), Lit '')">'']
      @ concat (map entity_path es) @ [Lit ''</g></svg>'']
    \<and> length (filter (\<lambda>p. p = Lit ''<g transform="translate('')
          (convertDxfToSvg es (Fin w) (Fin h))) = 1\<close>
proof -
  note b = bounds_fin [OF assms(1) assms(2)]
  have sc: "svg_scale es (Fin w) (Fin h) =
      Fin (min (w / (Max (fst ` set ps) - Min (fst ` set ps)))
               (h / (Max (snd ` set ps) - Min (snd ` set ps))) * 0.8)"
    using assms(3) assms(4)
    by (simp add: svg_scale_def b bbox_dx_def bbox_dy_def js_sub_def js_min_def min_def)
  have cx: "js_neg (centerX es) = Fin (- ((Min (fst ` set ps) + Max (fst ` set ps)) / 2))"
    by (simp add: centerX_def b)
  have cy: "js_neg (centerY es) = Fin (- ((Min (snd ` set ps) + Max (snd ` set ps)) / 2))"
    by (simp add: centerY_def b)
  have m: \<open>convertDxfToSvg es (Fin w) (Fin h) =
      [Lit ''<svg width="'', Num (Fin w), Lit ''" height="'', Num (Fin h),
       Lit ''" xmlns="http://www.w3.org/2000/svg" viewBox="0 0 '', Num (Fin w), Lit '' '',
       Num (Fin h), Lit ''">'',
       Lit ''<g transform="translate('', Num (Fin (w / 2)), Lit '', '', Num (Fin (h / 2)),
       Lit '') scale('',
       Num (Fin (min (w / (Max (fst ` set ps) - Min (fst ` set ps)))
                     (h / (Max (snd ` set ps) - Min (snd ` set ps))) * 0.8)),
       Lit '') translate('',
       Num (Fin (- ((Min (fst ` set ps) + Max (fst ` set ps)) / 2))), Lit '', '',
       Num (Fin (- ((Min (snd ` set ps) + Max (snd ` set ps)) / 2))), Lit '')">'']
      @ concat (map entity_path es) @ [Lit ''</g></svg>'']\<close>
    by (simp add: convertDxfToSvg_def sc cx cy svg_head_def svg_group_def group_open_def)
  have g: \<open>length (filter (\<lambda>p. p = Lit ''<g transform="translate('')
          (convertDxfToSvg es (Fin w) (Fin h))) = 1\<close>
    using group_count_svg [of es "Fin w" "Fin h"]
    by (simp only: group_count_def group_open_def)
  from m g show ?thesis by (rule conjI)
qed

theorem svg_transform_witness:
  \<open>convertDxfToSvg [sheet, detail] (Fin 800) (Fin 600) =
      [Lit ''<svg width="'', Num (Fin 800), Lit ''" height="'', Num (Fin 600),
       Lit ''" xmlns="http://www.w3.org/2000/svg" viewBox="0 0 '', Num (Fin 800), Lit '' '',
       Num (Fin 600), Lit ''">'',
       Lit ''<g transform="translate('', Num (Fin 400), Lit '', '', Num (Fin 300),
       Lit '') scale('', Num (Fin 6.4), Lit '') translate('',
       Num (Fin (- 50)), Lit '', '', Num (Fin (- 25)), Lit '')">'']
      @ entity_path sheet @ entity_path detail @ [Lit ''</g></svg>'']
   \<and> length (filter (\<lambda>p. p = Lit ''<g transform="translate('')
         (convertDxfToSvg [sheet, detail] (Fin 800) (Fin 600))) = 1\<close>
proof -
  let ?ps = "[(0, 0), (100, 0), (100, 50), (0, 50), (10, 10), (40, 10), (40, 30)]
    :: (real \<times> real) list"
  have h1: "concat (map evertices [sheet, detail]) = map fin_vertex ?ps"
    by (simp add: sheet_def detail_def)
  have h2: "?ps \<noteq> []" by simp
  have h3: "Min (fst ` set ?ps) < Max (fst ` set ?ps)" by simp
  have h4: "Min (snd ` set ?ps) < Max (snd ` set ?ps)" by simp
  note t = svg_transform [OF h1 h2 h3 h4, of 800 600]
  from t [THEN conjunct1]
  have a: \<open>convertDxfToSvg [sheet, detail] (Fin 800) (Fin 600) =
      [Lit ''<svg width="'', Num (Fin 800), Lit ''" height="'', Num (Fin 600),
       Lit ''" xmlns="http://www.w3.org/2000/svg" viewBox="0 0 '', Num (Fin 800), Lit '' '',
       Num (Fin 600), Lit ''">'',
       Lit ''<g transform="translate('', Num (Fin 400), Lit '', '', Num (Fin 300),
       Lit '') scale('', Num (Fin 6.4), Lit '') translate('',
       Num (Fin (- 50)), Lit '', '', Num (Fin (- 25)), Lit '')">'']
      @ entity_path sheet @ entity_path detail @ [Lit ''</g></svg>'']\<close>
    by simp
  from a t [THEN conjunct2] show ?thesis by (rule conjI)
qed

text \<open>
  C5, as stated, fails: the guard of the drawing loop is \<open>vertices.length > 0\<close>, so
  an entity with exactly one vertex does produce a path element, a move-to alone.
\<close>

theorem single_vertex_path_counterexample:
  "path_count (convertDxfToSvg [single_point] (Fin 800) (Fin 600)) = 1"
  by (simp add: path_count_svg drawable_def single_point_def)

text \<open>
  C5, amended. The markup has one path element for each entity of type LWPOLYLINE with
  at least one vertex, and none for the others. The path of an entity moves to its first
  vertex and draws a line to each later one, in order, and has no closing command; for
  a single vertex it is the move-to alone. The paths follow the opening of the group in
  the order of the entities, each made from its own entity only: adding an entity to
  the list inserts its path and leaves the paths before and after it as they are.
\<close>

theorem paths_by_entity:
  \<open>path_count (convertDxfToSvg es w h) = length (filter drawable es)
   \<and> (etype e = ''LWPOLYLINE'' \<and> evertices e = v # vs \<longrightarrow>
        entity_path e =
          [path_open, Lit ''M '', Num (vx v), Lit '' '', Num (vy v)]
          @ concat (map (\<lambda>u. [Lit '' L '', Num (vx u), Lit '' '', Num (vy u)]) vs)
          @ [Lit ''" fill="none" stroke="'', Lit (fst (stroke_of (data_layer e))),
             Lit ''" stroke-width="'', Lit (snd (stroke_of (data_layer e))), Lit ''"/>''])
   \<and> (evertices e = [] \<longrightarrow> entity_path e = [])
   \<and> drop 20 (convertDxfToSvg (es1 @ e # es2) w h) =
       butlast (drop 20 (convertDxfToSvg es1 w1 h1)) @ entity_path e
       @ drop 20 (convertDxfToSvg es2 w2 h2)\<close>
proof -
  have a: "path_count (convertDxfToSvg es w h) = length (filter drawable es)"
    by (rule path_count_svg)
  have b: \<open>etype e = ''LWPOLYLINE'' \<and> evertices e = v # vs \<longrightarrow>
        entity_path e =
          [path_open, Lit ''M '', Num (vx v), Lit '' '', Num (vy v)]
          @ concat (map (\<lambda>u. [Lit '' L '', Num (vx u), Lit '' '', Num (vy u)]) vs)
          @ [Lit ''" fill="none" stroke="'', Lit (fst (stroke_of (data_layer e))),
             Lit ''" stroke-width="'', Lit (snd (stroke_of (data_layer e))), Lit ''"/>'']\<close>
    by (simp add: entity_path_def)
  have c: "evertices e = [] \<longrightarrow> entity_path e = []"
    by (simp add: entity_path_def)
  have d: "drop 20 (convertDxfToSvg (es1 @ e # es2) w h) =
       butlast (drop 20 (convertDxfToSvg es1 w1 h1)) @ entity_path e
       @ drop 20 (convertDxfToSvg es2 w2 h2)"
    by (simp add: svg_body)
  from a b c d show ?thesis by (intro conjI)
qed

theorem paths_by_entity_witness:
  \<open>etype single_point = ''LWPOLYLINE'' \<and> evertices single_point = [fin_vertex (3, 4)]
   \<and> entity_path single_point =
       [path_open, Lit ''M '', Num (Fin 3), Lit '' '', Num (Fin 4),
        Lit ''" fill="none" stroke="'', Lit ''#A23B72'', Lit ''" stroke-width="'', Lit ''1.5'',
        Lit ''"/>'']
   \<and> evertices no_vertices = [] \<and> entity_path no_vertices = []
   \<and> path_count (convertDxfToSvg [sheet, single_point, no_vertices, detail] (Fin 800) (Fin 600)) = 3\<close>
proof -
  have h: "etype single_point = ''LWPOLYLINE'' \<and> evertices single_point = [fin_vertex (3, 4)]"
    by (simp add: single_point_def)
  have k: "evertices no_vertices = []" by (simp add: no_vertices_def)
  note a = paths_by_entity
    [of "[]" NaN NaN single_point "fin_vertex (3, 4)" "[]" "[]" "[]" NaN NaN NaN NaN,
     THEN conjunct2, THEN conjunct1, rule_format, OF h]
  note b = paths_by_entity
    [of "[]" NaN NaN no_vertices "fin_vertex (3, 4)" "[]" "[]" "[]" NaN NaN NaN NaN,
     THEN conjunct2, THEN conjunct2, THEN conjunct1, rule_format, OF k]
  note c = paths_by_entity
    [of "[sheet, single_point, no_vertices, detail]" "Fin 800" "Fin 600" single_point
     "fin_vertex (3, 4)" "[]" "[]" "[]" NaN NaN NaN NaN, THEN conjunct1]
  have a': \<open>entity_path single_point =
       [path_open, Lit ''M '', Num (Fin 3), Lit '' '', Num (Fin 4),
        Lit ''" fill="none" stroke="'', Lit ''#A23B72'', Lit ''" stroke-width="'', Lit ''1.5'',
        Lit ''"/>'']\<close>
    using a by (simp add: single_point_def fin_vertex_def stroke_of_def)
  have c': "path_count (convertDxfToSvg [sheet, single_point, no_vertices, detail] (Fin 800) (Fin 600)) = 3"
    using c by (simp add: drawable_def sheet_def single_point_def no_vertices_def detail_def)
  from h a' k b c' show ?thesis by (intro conjI) simp_all
qed

text \<open>
  C6, as stated, fails: no epsilon is substituted for a zero extent. For a single point
  both extents are zero, both quotients are Infinity, and so is the scale.
\<close>

theorem scale_without_epsilon_counterexample:
  "svg_scale [single_point] (Fin 800) (Fin 600) = PosInf"
  by (simp add: svg_scale_def bounds_def grow_def single_point_def fin_vertex_def
      bbox_dx_def bbox_dy_def js_sub_def js_min_def js_max_def)

text \<open>
  C6, amended. For finite vertices and a positive viewport, a zero extent is divided by
  as it is. When only the width of the box is zero the scale is \<open>h/dy * 0.8\<close>, when
  only its height is zero it is \<open>w/dx * 0.8\<close>, and when both are zero it is Infinity.
  In each case the markup is still produced, with that scale in the transform of the
  group.
\<close>

theorem scale_without_epsilon:
  assumes "concat (map evertices es) = map fin_vertex ps" and "ps \<noteq> []"
    and "0 < w" and "0 < h"
  shows "svg_scale es (Fin w) (Fin h) =
      (let dx = Max (fst ` set ps) - Min (fst ` set ps);
           dy = Max (snd ` set ps) - Min (snd ` set ps)
       in if dx = 0 \<and> dy = 0 then PosInf
          else if dx = 0 then Fin (h / dy * 0.8)
          else if dy = 0 then Fin (w / dx * 0.8)
          else Fin (min (w / dx) (h / dy) * 0.8))
    \<and> take 3 (drop 13 (convertDxfToSvg es (Fin w) (Fin h))) =
        [Lit '') scale('', Num (svg_scale es (Fin w) (Fin h)), Lit '') translate('']"
proof -
  note b = bounds_fin [OF assms(1) assms(2)]
  have sc: "svg_scale es (Fin w) (Fin h) =
      (let dx = Max (fst ` set ps) - Min (fst ` set ps);
           dy = Max (snd ` set ps) - Min (snd ` set ps)
       in if dx = 0 \<and> dy = 0 then PosInf
          else if dx = 0 then Fin (h / dy * 0.8)
          else if dy = 0 then Fin (w / dx * 0.8)
          else Fin (min (w / dx) (h / dy) * 0.8))"
    using assms(3) assms(4)
    by (simp add: svg_scale_def b bbox_dx_def bbox_dy_def js_sub_def js_min_def min_def Let_def)
  have "take 3 (drop 13 (convertDxfToSvg es (Fin w) (Fin h))) =
        [Lit '') scale('', Num (svg_scale es (Fin w) (Fin h)), Lit '') translate('']"
    by (simp add: convertDxfToSvg_def svg_head_def svg_group_def)
  with sc show ?thesis by simp
qed

theorem scale_without_epsilon_witness:
  "svg_scale [single_point] (Fin 800) (Fin 600) = PosInf
   \<and> take 3 (drop 13 (convertDxfToSvg [single_point] (Fin 800) (Fin 600))) =
        [Lit '') scale('', Num PosInf, Lit '') translate('']"
proof -
  have h1: "concat (map evertices [single_point]) = map fin_vertex [(3, 4)]"
    by (simp add: single_point_def)
  have h2: "[(3, 4)] \<noteq> ([] :: (real \<times> real) list)" by simp
  have h3: "(0::real) < 800" by simp
  have h4: "(0::real) < 600" by simp
  from scale_without_epsilon [OF h1 h2 h3 h4] show ?thesis by simp
qed

text \<open>
  C7. When no entity has a vertex (the empty list among them), the markup is produced
  and has no path element. The box stays at its initial infinities, so both extents are
  \<open>-Infinity\<close>: nothing is divided by zero. The markup is the \<open>svg\<close> tag, the
  group and the closing tags, and for a finite viewport the scale of the group is zero.
\<close>

theorem empty_drawing:
  assumes "\<forall>e \<in> set es. evertices e = []"
  shows "path_count (convertDxfToSvg es w h) = 0
    \<and> bbox_dx (bounds es) = NegInf \<and> bbox_dy (bounds es) = NegInf
    \<and> convertDxfToSvg es w h =
        svg_head w h
        @ svg_group (js_div w (Fin 2)) (js_div h (Fin 2))
            (js_mul (js_min (js_div w NegInf) (js_div h NegInf)) (Fin 0.8)) NaN NaN
        @ [Lit ''</g></svg>'']
    \<and> svg_scale es (Fin a) (Fin b) = Fin 0"
proof -
  note b = bounds_empty [OF assms]
  have d: "filter drawable es = []"
    using assms by (auto simp add: drawable_def filter_empty_conv)
  have p: "concat (map entity_path es) = []" using assms by (simp add: entity_path_def)
  have c: "path_count (convertDxfToSvg es w h) = 0" by (simp add: path_count_svg d)
  have x: "bbox_dx (bounds es) = NegInf" by (simp add: bbox_dx_def b js_sub_def)
  have y: "bbox_dy (bounds es) = NegInf" by (simp add: bbox_dy_def b js_sub_def)
  have m: "convertDxfToSvg es w h =
        svg_head w h
        @ svg_group (js_div w (Fin 2)) (js_div h (Fin 2))
            (js_mul (js_min (js_div w NegInf) (js_div h NegInf)) (Fin 0.8)) NaN NaN
        @ [Lit ''</g></svg>'']"
    by (simp add: convertDxfToSvg_def p svg_scale_def x [unfolded b] y [unfolded b]
        centerX_def centerY_def b)
  have s: "svg_scale es (Fin a) (Fin b) = Fin 0"
    by (simp add: svg_scale_def x y js_min_def)
  from c x y m s show ?thesis by (intro conjI)
qed

theorem empty_drawing_witness:
  "evertices no_vertices = []
   \<and> path_count (convertDxfToSvg [no_vertices] (Fin 800) (Fin 600)) = 0
   \<and> convertDxfToSvg [no_vertices] (Fin 800) (Fin 600) =
        svg_head (Fin 800) (Fin 600) @ svg_group (Fin 400) (Fin 300) (Fin 0) NaN NaN
        @ [Lit ''</g></svg>'']
   \<and> path_count (convertDxfToSvg [] (Fin 800) (Fin 600)) = 0"
proof -
  have h: "\<forall>e \<in> set [no_vertices]. evertices e = []" by (simp add: no_vertices_def)
  have k: "\<forall>e \<in> set ([] :: entity list). evertices e = []" by simp
  note t = empty_drawing [OF h, of "Fin 800" "Fin 600" 800 600]
  note u = empty_drawing [OF k, of "Fin 800" "Fin 600" 800 600]
  from t have a: "path_count (convertDxfToSvg [no_vertices] (Fin 800) (Fin 600)) = 0"
    by (rule conjunct1)
  from t have b: "convertDxfToSvg [no_vertices] (Fin 800) (Fin 600) =
        svg_head (Fin 800) (Fin 600) @ svg_group (Fin 400) (Fin 300) (Fin 0) NaN NaN
        @ [Lit ''</g></svg>'']"
    by (simp add: js_min_def)
  from u have c: "path_count (convertDxfToSvg [] (Fin 800) (Fin 600)) = 0"
    by (rule conjunct1)
  have e: "evertices no_vertices = []" by (simp add: no_vertices_def)
  from e a b c show ?thesis by (intro conjI)
qed

section \<open>Properties of the zoom\<close>

lemma zoom_step_range:
  "0.1 \<le> z \<Longrightarrow> z \<le> 5 \<Longrightarrow> 0.1 \<le> zoom_step z a \<and> zoom_step z a \<le> 5"
  by (cases a)
     (auto simp: handleZoomIn_def handleZoomOut_def handleWheel_def handleResetZoom_def)

lemma foldl_zoom_range:
  "0.1 \<le> z \<Longrightarrow> z \<le> 5 \<Longrightarrow>
   0.1 \<le> foldl zoom_step z acts \<and> foldl zoom_step z acts \<le> 5"
proof (induction acts arbitrary: z)
  case Nil
  then show ?case by simp
next
  case (Cons a acts)
  have "0.1 \<le> zoom_step z a \<and> zoom_step z a \<le> 5"
    using Cons.prems by (rule zoom_step_range)
  then show ?case using Cons.IH by simp
qed

text \<open>
  C8. From the initial zoom \<open>1\<close>, after any sequence of zoom-in, zoom-out, wheel and
  reset actions the zoom is between \<open>0.1\<close> and \<open>5\<close>. On a zoom in that range each
  handler is a multiplication (by \<open>1.2\<close>, by \<open>1/1.2\<close>, and by \<open>0.9\<close> or
  \<open>1.1\<close> for the wheel) followed by the clamp to the range. Three wheel steps of
  multiplier \<open>1.1\<close> from \<open>1\<close> give \<open>1.331\<close> (exactly so in the reals; the
  rounding of doubles is not modelled).
\<close>

theorem zoom_bounded:
  "0.1 \<le> zoom_after acts \<and> zoom_after acts \<le> 5
   \<and> (0.1 \<le> z \<and> z \<le> 5 \<longrightarrow>
        handleZoomIn z = clamp_zoom (z * 1.2)
        \<and> handleZoomOut z = clamp_zoom (z * (1 / 1.2))
        \<and> handleWheel d z = clamp_zoom (z * (if d > 0 then 0.9 else 1.1)))
   \<and> zoom_after [Wheel (- 1), Wheel (- 1), Wheel (- 1)] = 1.331"
proof -
  have a: "0.1 \<le> zoom_after acts \<and> zoom_after acts \<le> 5"
    unfolding zoom_after_def by (rule foldl_zoom_range) simp_all
  have b: "0.1 \<le> z \<and> z \<le> 5 \<longrightarrow>
        handleZoomIn z = clamp_zoom (z * 1.2)
        \<and> handleZoomOut z = clamp_zoom (z * (1 / 1.2))
        \<and> handleWheel d z = clamp_zoom (z * (if d > 0 then 0.9 else 1.1))"
    by (simp add: handleZoomIn_def handleZoomOut_def handleWheel_def clamp_zoom_def
        min_def max_def)
  have c: "zoom_after [Wheel (- 1), Wheel (- 1), Wheel (- 1)] = 1.331"
    by (simp add: zoom_after_def handleWheel_def)
  from a b c show ?thesis by blast
qed

theorem zoom_bounded_witness:
  "(0.1 :: real) \<le> 4.5 \<and> (4.5 :: real) \<le> 5
   \<and> handleZoomIn 4.5 = 5 \<and> handleZoomOut 4.5 = 3.75 \<and> handleWheel 1 4.5 = 4.05
   \<and> 0.1 \<le> zoom_after [ZoomIn, ZoomIn, ZoomOut] \<and> zoom_after [ZoomIn, ZoomIn, ZoomOut] \<le> 5"
proof -
  have h: "(0.1 :: real) \<le> 4.5 \<and> (4.5 :: real) \<le> 5" by simp
  note a = zoom_bounded [of "[]" "4.5" 1, THEN conjunct2, THEN conjunct2, THEN conjunct1,
    rule_format, OF h]
  note b = zoom_bounded [of "[ZoomIn, ZoomIn, ZoomOut]" 1 1, THEN conjunct1]
  note c = zoom_bounded [of "[ZoomIn, ZoomIn, ZoomOut]" 1 1, THEN conjunct2, THEN conjunct1]
  have a': "handleZoomIn 4.5 = 5 \<and> handleZoomOut 4.5 = 3.75 \<and> handleWheel 1 4.5 = 4.05"
    using a by (simp add: clamp_zoom_def)
  from h a' b c show ?thesis by simp
qed

end
